theory Spec2Isabelle
  imports Main
begin

section \<open>Python strings\<close>

text \<open>
  The gateway (\<^verbatim>\<open>backend/main.py\<close>) works on Python strings. A \<^verbatim>\<open>str\<close> is a sequence of
  Unicode code points and is modelled as a list of natural numbers; \<open>str_of\<close> gives the
  value of a literal of the source.

  The built-in methods the code calls are \<^verbatim>\<open>strip\<close>, \<^verbatim>\<open>lower\<close>, \<^verbatim>\<open>capitalize\<close> and
  \<^verbatim>\<open>in\<close>. White space is the set of code points on which \<^verbatim>\<open>str.isspace\<close> holds, written
  out in full. Case conversion is written out for ASCII; the case mappings of the other
  code points come from the Unicode tables of the interpreter, which are a parameter
  of the model (\<open>unicode\<close>), so that every statement below holds whatever these tables are.
\<close>

type_synonym codepoint = nat

type_synonym pystr = "codepoint list"

definition str_of :: "string \<Rightarrow> pystr" where
  "str_of s = map of_char s"

definition is_space :: "codepoint \<Rightarrow> bool" where
  \<comment> \<open>\<^verbatim>\<open>str.isspace\<close>: U+0009..U+000D, U+001C..U+0020, U+0085, U+00A0, U+1680,
      U+2000..U+200A, U+2028, U+2029, U+202F, U+205F, U+3000\<close>
  "is_space c =
     ((9 \<le> c \<and> c \<le> 13) \<or> (28 \<le> c \<and> c \<le> 32) \<or> c = 133 \<or> c = 160 \<or> c = 5760 \<or>
      (8192 \<le> c \<and> c \<le> 8202) \<or> c = 8232 \<or> c = 8233 \<or> c = 8239 \<or> c = 8287 \<or> c = 12288)"

definition strip :: "pystr \<Rightarrow> pystr" where
  \<comment> \<open>\<^verbatim>\<open>s.strip()\<close>: leading and trailing white space removed.\<close>
  "strip s = rev (dropWhile is_space (rev (dropWhile is_space s)))"

record unicode =
  lowercase :: "pystr \<Rightarrow> codepoint \<Rightarrow> pystr \<Rightarrow> codepoint \<times> pystr"
    \<comment> \<open>the lower-case mapping of a code point above U+007F that stands between the code
        points \<open>seen\<close> and \<open>rest\<close> of its string (the mapping of capital sigma depends on them): one
        code point, sometimes followed by more\<close>
  titlecase :: "codepoint \<Rightarrow> codepoint \<times> pystr"
    \<comment> \<open>the mapping \<^verbatim>\<open>capitalize\<close> applies to a first code point above U+007F\<close>

definition lower_ascii :: "codepoint \<Rightarrow> codepoint" where
  "lower_ascii c = (if 65 \<le> c \<and> c \<le> 90 then c + 32 else c)"

definition upper_ascii :: "codepoint \<Rightarrow> codepoint" where
  "upper_ascii c = (if 97 \<le> c \<and> c \<le> 122 then c - 32 else c)"

fun lower_from :: "unicode \<Rightarrow> pystr \<Rightarrow> pystr \<Rightarrow> pystr" where
  \<comment> \<open>lower-cases the code points of a string that come after \<open>seen\<close>\<close>
  "lower_from u seen [] = []"
| "lower_from u seen (c # rest) =
     (if c < 128 then [lower_ascii c]
      else (case lowercase u seen c rest of (x, xs) \<Rightarrow> x # xs))
     @ lower_from u (seen @ [c]) rest"

definition lower :: "unicode \<Rightarrow> pystr \<Rightarrow> pystr" where
  \<comment> \<open>\<^verbatim>\<open>s.lower()\<close>\<close>
  "lower u s = lower_from u [] s"

fun capitalize :: "unicode \<Rightarrow> pystr \<Rightarrow> pystr" where
  \<comment> \<open>\<^verbatim>\<open>s.capitalize()\<close>: first code point upper-cased, the others lower-cased.\<close>
  "capitalize u [] = []"
| "capitalize u (c # cs) =
     (if c < 128 then [upper_ascii c]
      else (case titlecase u c of (x, xs) \<Rightarrow> x # xs))
     @ lower_from u [c] cs"

fun startswith :: "pystr \<Rightarrow> pystr \<Rightarrow> bool" where
  \<comment> \<open>\<open>startswith s w\<close> is \<^verbatim>\<open>s.startswith(w)\<close>.\<close>
  "startswith s [] = True"
| "startswith [] (x # w) = False"
| "startswith (c # s) (x # w) = (c = x \<and> startswith s w)"

fun contains :: "pystr \<Rightarrow> pystr \<Rightarrow> bool" where
  \<comment> \<open>\<open>contains s w\<close> is \<^verbatim>\<open>w in s\<close>: \<open>w\<close> occurs in \<open>s\<close> as a contiguous substring.\<close>
  "contains [] w = (w = [])"
| "contains (c # s) w = (startswith (c # s) w \<or> contains s w)"

definition any_in :: "pystr list \<Rightarrow> pystr \<Rightarrow> bool" where
  \<comment> \<open>\<^verbatim>\<open>any(word in text for word in words)\<close>\<close>
  "any_in words s = list_ex (contains s) words"

section \<open>Label normalization\<close>

definition clean_response :: "unicode \<Rightarrow> pystr \<Rightarrow> pystr" where
  "clean_response u raw =
     (let text = lower u (strip raw) in
      if any_in [str_of ''positive'', str_of ''happy'', str_of ''good'', str_of ''great'',
                 str_of ''excellent'', str_of ''wonderful''] text
        then str_of ''Positive''
      else if any_in [str_of ''negative'', str_of ''sad'', str_of ''bad'', str_of ''terrible'',
                      str_of ''awful'', str_of ''horrible''] text
        then str_of ''Negative''
      else if any_in [str_of ''neutral'', str_of ''mixed'', str_of ''okay'', str_of ''average''] text
        then str_of ''Neutral''
      else if contains text (str_of ''positive'') then str_of ''Positive''
      else if contains text (str_of ''negative'') then str_of ''Negative''
      else if contains text (str_of ''neutral'') then str_of ''Neutral''
      else if text \<noteq> [] then capitalize u text else str_of ''Neutral'')"

section \<open>The inference backend as seen by the gateway\<close>

text \<open>
  The gateway talks to the inference backend through \<^verbatim>\<open>requests\<close>. Every call either
  raises or returns a response with a status code and a body. The exceptions of the
  library calls are the classes the handlers of \<^verbatim>\<open>analyze_sentiment\<close> tell apart, each
  with its \<^verbatim>\<open>str(e)\<close>.
\<close>

datatype lib_exn =
    Timeout pystr                \<comment> \<open>\<^verbatim>\<open>requests.exceptions.Timeout\<close>\<close>
  | RequestException pystr       \<comment> \<open>any other \<^verbatim>\<open>requests.exceptions.RequestException\<close>\<close>
  | OtherException pystr         \<comment> \<open>any other \<^verbatim>\<open>Exception\<close>\<close>

fun is_request_exception :: "lib_exn \<Rightarrow> bool" where
  \<comment> \<open>what \<^verbatim>\<open>except requests.exceptions.RequestException\<close> catches\<close>
  "is_request_exception (Timeout m) = True"
| "is_request_exception (RequestException m) = True"
| "is_request_exception (OtherException m) = False"

datatype exn =
    Raised lib_exn               \<comment> \<open>an exception of a library call\<close>
  | HTTPException nat pystr      \<comment> \<open>\<^verbatim>\<open>HTTPException(status_code, detail)\<close>\<close>

datatype 'a json_body =
    JsonRaises lib_exn  \<comment> \<open>\<^verbatim>\<open>response.json()\<close>, or reading the decoded value, raises\<close>
  | Json "'a option"    \<comment> \<open>the decoded object; the value of the one key read from it, if present\<close>

datatype 'a outcome =
    Raises lib_exn
  | Response nat "'a json_body"   \<comment> \<open>status code and body\<close>

record upstream =
  probe_tags :: "pystr list outcome"
    \<comment> \<open>\<^verbatim>\<open>GET /api/tags\<close> as issued by \<^verbatim>\<open>check_ollama_service\<close>\<close>
  list_tags :: "pystr list outcome"
    \<comment> \<open>\<^verbatim>\<open>GET /api/tags\<close> as issued by \<^verbatim>\<open>get_available_models\<close>; the body holds the
        names under the key \<^verbatim>\<open>models\<close>\<close>
  post_generate :: "pystr \<Rightarrow> pystr \<Rightarrow> pystr outcome"
    \<comment> \<open>\<^verbatim>\<open>POST /api/generate\<close> for a model and a prompt (the other fields of the payload
        are constants); the body holds the text under the key \<^verbatim>\<open>response\<close>\<close>
  now_isoformat :: pystr
    \<comment> \<open>\<^verbatim>\<open>datetime.now().isoformat()\<close>\<close>
  http_exception_str :: "nat \<Rightarrow> pystr \<Rightarrow> pystr"
    \<comment> \<open>\<^verbatim>\<open>str(e)\<close> of an \<^verbatim>\<open>HTTPException\<close>, which the web framework defines\<close>

definition DEFAULT_MODEL :: pystr where
  "DEFAULT_MODEL = str_of ''mistral:7b-instruct''"

definition check_ollama_service :: "upstream \<Rightarrow> lib_exn + bool" where
  "check_ollama_service up =
     (case probe_tags up of
        Response status_code body \<Rightarrow> Inr (status_code = 200)
      | Raises e \<Rightarrow> if is_request_exception e then Inr False else Inl e)"

definition get_available_models :: "upstream \<Rightarrow> lib_exn + pystr list" where
  "get_available_models up =
     (case list_tags up of
        Response status_code body \<Rightarrow>
          (if status_code = 200 then
             (case body of
                Json models \<Rightarrow> Inr (case models of Some names \<Rightarrow> names | None \<Rightarrow> [])
              | JsonRaises e \<Rightarrow> if is_request_exception e then Inr [] else Inl e)
           else Inr [])
      | Raises e \<Rightarrow> if is_request_exception e then Inr [] else Inl e)"

section \<open>The analyze operation\<close>

record analysis =
  sentiment :: pystr
  confidence :: pystr
  model_used :: pystr
  input_text :: pystr
  input_length :: nat
  raw_response :: pystr
  timestamp :: pystr
  status :: pystr

fun str_nat :: "nat \<Rightarrow> pystr" where
  \<comment> \<open>the decimal numeral an f-string prints for a status code\<close>
  "str_nat n = (if n < 10 then [48 + n] else str_nat (n div 10) @ [48 + n mod 10])"

definition str_exn :: "upstream \<Rightarrow> exn \<Rightarrow> pystr" where
  "str_exn up e =
     (case e of
        Raised (Timeout m) \<Rightarrow> m
      | Raised (RequestException m) \<Rightarrow> m
      | Raised (OtherException m) \<Rightarrow> m
      | HTTPException s d \<Rightarrow> http_exception_str up s d)"

definition prompt_for :: "pystr \<Rightarrow> pystr" where
  "prompt_for text =
     str_of ''Analyze the sentiment of the following text and respond with ONLY one word: Positive, Negative, or Neutral.''
     @ str_of [CHR 0x0A, CHR 0x0A] @ str_of ''Text: '' @ str_of [CHR 0x22] @ text @ str_of [CHR 0x22]
     @ str_of [CHR 0x0A, CHR 0x0A] @ str_of ''Sentiment:''"

definition select_model :: "pystr option \<Rightarrow> pystr list \<Rightarrow> pystr" where
  \<comment> \<open>lines 120 to 125: \<^verbatim>\<open>model if model else DEFAULT_MODEL\<close>, then the substitution\<close>
  "select_model model available_models =
     (let model_to_use = (case model of
                            Some m \<Rightarrow> if m \<noteq> [] then m else DEFAULT_MODEL
                          | None \<Rightarrow> DEFAULT_MODEL)
      in case available_models of
           [] \<Rightarrow> model_to_use
         | first # others \<Rightarrow>
             if model_to_use \<notin> set available_models then first else model_to_use)"

definition get_response :: "pystr option \<Rightarrow> pystr" where
  \<comment> \<open>\<^verbatim>\<open>result.get("response", "")\<close>\<close>
  "get_response response = (case response of Some r \<Rightarrow> r | None \<Rightarrow> [])"

definition try_generate :: "unicode \<Rightarrow> upstream \<Rightarrow> pystr \<Rightarrow> pystr \<Rightarrow> exn + analysis" where
  \<comment> \<open>the body of the \<^verbatim>\<open>try\<close> block, lines 135 to 177\<close>
  "try_generate u up text model_to_use =
     (case post_generate up model_to_use (prompt_for text) of
        Raises e \<Rightarrow> Inl (Raised e)
      | Response status_code body \<Rightarrow>
          if status_code \<noteq> 200
            then Inl (HTTPException 500 (str_of ''Ollama API error: '' @ str_nat status_code))
          else
            (case body of
               JsonRaises e \<Rightarrow> Inl (Raised e)
             | Json response \<Rightarrow>
                 (let raw_sentiment = strip (get_response response)
                  in if raw_sentiment = []
                       then Inl (HTTPException 500 (str_of ''Empty response from model''))
                     else
                       (let cleaned_sentiment = clean_response u raw_sentiment
                        in Inr \<lparr> sentiment = cleaned_sentiment,
                                 confidence =
                                   (if cleaned_sentiment
                                         \<in> set [str_of ''Positive'', str_of ''Negative'', str_of ''Neutral'']
                                    then str_of ''high'' else str_of ''medium''),
                                 model_used = model_to_use,
                                 input_text = text,
                                 input_length = length text,
                                 raw_response = raw_sentiment,
                                 timestamp = now_isoformat up,
                                 status = str_of ''success'' \<rparr>))))"

definition except_clauses :: "upstream \<Rightarrow> exn \<Rightarrow> exn" where
  \<comment> \<open>the three \<^verbatim>\<open>except\<close> clauses, in their order; an \<^verbatim>\<open>HTTPException\<close> raised inside
      the \<^verbatim>\<open>try\<close> block is an \<^verbatim>\<open>Exception\<close> and reaches the last one\<close>
  "except_clauses up e =
     (case e of
        Raised (Timeout m) \<Rightarrow>
          HTTPException 504
            (str_of ''Request timeout. The model is taking too long to respond.'')
      | Raised (RequestException m) \<Rightarrow>
          HTTPException 503 (str_of ''Failed to connect to Ollama service: '' @ str_exn up e)
      | _ \<Rightarrow>
          HTTPException 500
            (str_of ''Unexpected error during sentiment analysis: '' @ str_exn up e))"

definition analyze_sentiment ::
  "unicode \<Rightarrow> upstream \<Rightarrow> pystr \<Rightarrow> pystr option \<Rightarrow> exn + analysis" where
  \<comment> \<open>\<open>Inl (HTTPException s d)\<close> is the error response with status \<open>s\<close> and detail \<open>d\<close>;
      \<open>Inl (Raised e)\<close> is an exception that leaves the handler uncaught\<close>
  "analyze_sentiment u up text0 model =
     (if text0 = [] \<or> strip text0 = []
        then Inl (HTTPException 400 (str_of ''Text input is required''))
      else
        (let text = strip text0 in
         if length text < 3
           then Inl (HTTPException 400 (str_of ''Text too short (minimum 3 characters)''))
         else if length text > 5000
           then Inl (HTTPException 400 (str_of ''Text too long (maximum 5,000 characters)''))
         else
           (case check_ollama_service up of
              Inl e \<Rightarrow> Inl (Raised e)
            | Inr running \<Rightarrow>
                if \<not> running
                  then Inl (HTTPException 503
                         (str_of ''Ollama service is not available. Please ensure Ollama is running.''))
                else
                  (case get_available_models up of
                     Inl e \<Rightarrow> Inl (Raised e)
                   | Inr available_models \<Rightarrow>
                       (case try_generate u up text (select_model model available_models) of
                          Inl e \<Rightarrow> Inl (except_clauses up e)
                        | Inr result \<Rightarrow> Inr result)))))"

section \<open>Reference definitions and sample values\<close>

text \<open>
  \<open>clean_response_simplified\<close> is \<open>clean_response\<close> with lines 35 to 40 (the checks for the
  three label words after the keyword lists) deleted.
\<close>

definition clean_response_simplified :: "unicode \<Rightarrow> pystr \<Rightarrow> pystr" where
  "clean_response_simplified u raw =
     (let text = lower u (strip raw) in
      if any_in [str_of ''positive'', str_of ''happy'', str_of ''good'', str_of ''great'',
                 str_of ''excellent'', str_of ''wonderful''] text
        then str_of ''Positive''
      else if any_in [str_of ''negative'', str_of ''sad'', str_of ''bad'', str_of ''terrible'',
                      str_of ''awful'', str_of ''horrible''] text
        then str_of ''Negative''
      else if any_in [str_of ''neutral'', str_of ''mixed'', str_of ''okay'', str_of ''average''] text
        then str_of ''Neutral''
      else if text \<noteq> [] then capitalize u text else str_of ''Neutral'')"

text \<open>
  \<open>clean_response_as_specified\<close> follows the words of the specification, not the code:
  lower-case and trim; keyword sets happy/good/great/excellent/wonderful,
  sad/bad/terrible/awful/horrible and mixed/okay/average; if no keyword matches, the
  substrings positive, negative, neutral in that order; otherwise the capitalized reply.
\<close>

definition clean_response_as_specified :: "unicode \<Rightarrow> pystr \<Rightarrow> pystr" where
  "clean_response_as_specified u raw =
     (let text = lower u (strip raw) in
      if any_in [str_of ''happy'', str_of ''good'', str_of ''great'', str_of ''excellent'',
                 str_of ''wonderful''] text
        then str_of ''Positive''
      else if any_in [str_of ''sad'', str_of ''bad'', str_of ''terrible'', str_of ''awful'',
                      str_of ''horrible''] text
        then str_of ''Negative''
      else if any_in [str_of ''mixed'', str_of ''okay'', str_of ''average''] text
        then str_of ''Neutral''
      else if contains text (str_of ''positive'') then str_of ''Positive''
      else if contains text (str_of ''negative'') then str_of ''Negative''
      else if contains text (str_of ''neutral'') then str_of ''Neutral''
      else capitalize u text)"

text \<open>
  Values for concrete runs. \<open>latin1_cases\<close> is a sample of the case tables: it has the
  mappings of the code points U+0080 to U+00FF (the case pairs of the Latin-1 letters,
  the title case of the micro sign, of sharp s and of y with diaeresis) and maps every
  code point above them to itself. \<open>backend_answering\<close> is a backend whose listing reports \<open>names\<close> and
  whose generate call has the outcome \<open>out\<close>; \<open>backend_down\<close> refuses every connection.
\<close>

definition latin1_cases :: unicode where
  "latin1_cases =
     \<lparr> lowercase = (\<lambda>seen c rest.
         if (192 \<le> c \<and> c \<le> 214) \<or> (216 \<le> c \<and> c \<le> 222) then (c + 32, []) else (c, [])),
       titlecase = (\<lambda>c.
         if c = 181 then (924, [])
         else if c = 223 then (83, [115])
         else if c = 255 then (376, [])
         else if (224 \<le> c \<and> c \<le> 246) \<or> (248 \<le> c \<and> c \<le> 254) then (c - 32, [])
         else (c, [])) \<rparr>"

definition backend_answering :: "pystr list \<Rightarrow> pystr outcome \<Rightarrow> upstream" where
  "backend_answering names out =
     \<lparr> probe_tags = Response 200 (Json (Some names)),
       list_tags = Response 200 (Json (Some names)),
       post_generate = (\<lambda>model prompt. out),
       now_isoformat = str_of ''2025-08-12T10:00:00'',
       http_exception_str = (\<lambda>s d. str_nat s @ str_of '': '' @ d) \<rparr>"

definition backend_down :: upstream where
  "backend_down =
     \<lparr> probe_tags = Raises (RequestException (str_of ''Connection refused'')),
       list_tags = Raises (RequestException (str_of ''Connection refused'')),
       post_generate = (\<lambda>model prompt. Raises (RequestException (str_of ''Connection refused''))),
       now_isoformat = str_of ''2025-08-12T10:00:00'',
       http_exception_str = (\<lambda>s d. str_nat s @ str_of '': '' @ d) \<rparr>"

definition padded_text :: pystr where
  \<comment> \<open>5001 code points: three letters and 4998 blanks\<close>
  "padded_text = str_of ''abc'' @ replicate 4998 32"

section \<open>Facts about the text operations\<close>

lemmas text_defs =
  str_of_def strip_def is_space_def lower_def lower_ascii_def upper_ascii_def any_in_def

lemma strip_Nil: "strip [] = []"
  by (simp add: strip_def)

lemma length_strip_le: "length (strip s) \<le> length s"
proof -
  have "length (strip s) \<le> length (dropWhile is_space s)"
    unfolding strip_def length_rev
    using length_dropWhile_le [of is_space "rev (dropWhile is_space s)"] by simp
  also have "\<dots> \<le> length s" by (rule length_dropWhile_le)
  finally show ?thesis .
qed

lemma strip_all_space:
  assumes "\<forall>c \<in> set s. is_space c"
  shows "strip s = []"
proof -
  have d: "dropWhile is_space s = []" using assms by simp
  show ?thesis unfolding strip_def d by simp
qed

lemma strip_trimmed:
  assumes "\<not> is_space x"
  shows "dropWhile is_space (rev (dropWhile is_space (rev (x # d))))
           = rev (dropWhile is_space (rev (x # d)))"
proof -
  have "dropWhile is_space (rev (x # d)) = dropWhile is_space (rev d) @ [x]"
    using assms by (simp add: dropWhile_append3)
  then show ?thesis using assms by simp
qed

lemma strip_strip: "strip (strip s) = strip s"
proof (cases "dropWhile is_space s")
  case Nil
  have "strip s = []" unfolding strip_def Nil by simp
  then show ?thesis by (simp add: strip_Nil)
next
  case (Cons x d)
  then have nx: "\<not> is_space x"
    using hd_dropWhile [of is_space s] by simp
  have "strip s = rev (dropWhile is_space (rev (x # d)))"
    by (simp add: strip_def Cons)
  moreover have "strip (rev (dropWhile is_space (rev (x # d))))
                   = rev (dropWhile is_space (rev (x # d)))"
    unfolding strip_def strip_trimmed [OF nx] by (simp add: dropWhile_idem)
  ultimately show ?thesis by simp
qed

lemma lower_from_Nil_iff: "lower_from u seen s = [] \<longleftrightarrow> s = []"
  by (cases s) (simp_all split: prod.splits)

lemma lower_Nil_iff: "lower u s = [] \<longleftrightarrow> s = []"
  by (simp add: lower_def lower_from_Nil_iff)

lemma any_in_Cons: "any_in (w # ws) s = (contains s w \<or> any_in ws s)"
  by (simp add: any_in_def)

lemma length_padded_text: "length padded_text = 5001"
  by (simp add: padded_text_def str_of_def)

lemma strip_padded_text: "strip padded_text = str_of ''abc''"
proof -
  have blank: "is_space 32" by (simp add: is_space_def)
  have front: "dropWhile is_space padded_text = padded_text"
    by (simp add: padded_text_def str_of_def is_space_def)
  have "dropWhile is_space (replicate 4998 32 @ [99, 98, 97]) = dropWhile is_space [99, 98, 97]"
    by (rule dropWhile_append2) (simp add: blank)
  then have "dropWhile is_space (rev padded_text) = [99, 98, 97]"
    by (simp add: padded_text_def str_of_def is_space_def)
  then show ?thesis unfolding strip_def front by (simp add: str_of_def)
qed

section \<open>Label normalization: the ordered fallback\<close>

text \<open>
  Claim C1, as amended. For every raw reply, \<open>clean_response\<close> lower-cases and trims it
  and then tests, in this order, whether one of positive/happy/good/great/excellent/wonderful
  occurs in it as a substring (giving Positive), else one of
  negative/sad/bad/terrible/awful/horrible (Negative), else one of
  neutral/mixed/okay/average (Neutral). The label words belong to the keyword lists, so
  when no keyword occurs the later checks for the substrings positive, negative and neutral
  cannot match either, and the result is the capitalized trimmed lower-cased reply, or
  Neutral when that is empty.
\<close>

theorem clean_response_ordered_fallback:
  "(let text = lower u (strip raw);
        positive = any_in [str_of ''positive'', str_of ''happy'', str_of ''good'',
                           str_of ''great'', str_of ''excellent'', str_of ''wonderful''] text;
        negative = any_in [str_of ''negative'', str_of ''sad'', str_of ''bad'',
                           str_of ''terrible'', str_of ''awful'', str_of ''horrible''] text;
        neutral = any_in [str_of ''neutral'', str_of ''mixed'', str_of ''okay'',
                          str_of ''average''] text
    in (positive \<longrightarrow> clean_response u raw = str_of ''Positive'') \<and>
       (\<not> positive \<and> negative \<longrightarrow> clean_response u raw = str_of ''Negative'') \<and>
       (\<not> positive \<and> \<not> negative \<and> neutral \<longrightarrow> clean_response u raw = str_of ''Neutral'') \<and>
       (\<not> positive \<and> \<not> negative \<and> \<not> neutral \<longrightarrow>
          \<not> contains text (str_of ''positive'') \<and> \<not> contains text (str_of ''negative'') \<and>
          \<not> contains text (str_of ''neutral'') \<and>
          clean_response u raw = (if text = [] then str_of ''Neutral'' else capitalize u text)))"
  by (simp add: clean_response_def any_in_Cons Let_def)

theorem clean_response_ordered_fallback_witness:
  "lower latin1_cases (strip (str_of ''  Not BAD  '')) = str_of ''not bad'' \<and>
   \<not> any_in [str_of ''positive'', str_of ''happy'', str_of ''good'',
             str_of ''great'', str_of ''excellent'', str_of ''wonderful''] (str_of ''not bad'') \<and>
   any_in [str_of ''negative'', str_of ''sad'', str_of ''bad'',
           str_of ''terrible'', str_of ''awful'', str_of ''horrible''] (str_of ''not bad'') \<and>
   clean_response latin1_cases (str_of ''  Not BAD  '') = str_of ''Negative'' \<and>
   lower latin1_cases (strip [78, 201, 71, 65, 84, 73, 70]) = [110, 233, 103, 97, 116, 105, 102] \<and>
   clean_response latin1_cases [78, 201, 71, 65, 84, 73, 70] = [78, 233, 103, 97, 116, 105, 102]"
proof -
  have t: "lower latin1_cases (strip (str_of ''  Not BAD  '')) = str_of ''not bad''"
    by (simp add: text_defs)
  have p: "\<not> any_in [str_of ''positive'', str_of ''happy'', str_of ''good'',
             str_of ''great'', str_of ''excellent'', str_of ''wonderful''] (str_of ''not bad'')"
    by (simp add: text_defs)
  have n: "any_in [str_of ''negative'', str_of ''sad'', str_of ''bad'',
           str_of ''terrible'', str_of ''awful'', str_of ''horrible''] (str_of ''not bad'')"
    by (simp add: text_defs)
  from clean_response_ordered_fallback [of latin1_cases "str_of ''  Not BAD  ''"] t p n
  have first: "clean_response latin1_cases (str_of ''  Not BAD  '') = str_of ''Negative''"
    by (simp add: Let_def)
  have t': "lower latin1_cases (strip [78, 201, 71, 65, 84, 73, 70])
              = [110, 233, 103, 97, 116, 105, 102]"
    by (simp add: text_defs latin1_cases_def)
  have none:
    "\<not> any_in [str_of ''positive'', str_of ''happy'', str_of ''good'',
             str_of ''great'', str_of ''excellent'', str_of ''wonderful'']
         [110, 233, 103, 97, 116, 105, 102]"
    "\<not> any_in [str_of ''negative'', str_of ''sad'', str_of ''bad'',
           str_of ''terrible'', str_of ''awful'', str_of ''horrible'']
         [110, 233, 103, 97, 116, 105, 102]"
    "\<not> any_in [str_of ''neutral'', str_of ''mixed'', str_of ''okay'', str_of ''average'']
         [110, 233, 103, 97, 116, 105, 102]"
    by (simp_all add: text_defs)
  have cap: "capitalize latin1_cases [110, 233, 103, 97, 116, 105, 102]
               = [78, 233, 103, 97, 116, 105, 102]"
    by (simp add: text_defs latin1_cases_def)
  from clean_response_ordered_fallback [of latin1_cases "[78, 201, 71, 65, 84, 73, 70]"]
    t' none cap
  have second: "clean_response latin1_cases [78, 201, 71, 65, 84, 73, 70]
                  = [78, 233, 103, 97, 116, 105, 102]"
    by (simp add: Let_def)
  from t p n first t' second show ?thesis by simp
qed

text \<open>
  The claim as the specification words it, with the label words outside the keyword sets,
  fails: in ``positive sad'' the keyword sad would give Negative, the code gives Positive.
\<close>

theorem clean_response_differs_from_specified:
  "clean_response latin1_cases (str_of ''positive sad'') = str_of ''Positive'' \<and>
   clean_response_as_specified latin1_cases (str_of ''positive sad'') = str_of ''Negative''"
  by (simp add: clean_response_def clean_response_as_specified_def text_defs)

text \<open>
  Claim C2, as amended. The replies ``I feel very happy today'', ``This is absolutely
  terrible'', ``It was rather average'' and ``banana'' are mapped to Positive, Negative,
  Neutral and Banana; ``Pos'' contains no keyword and is mapped to Pos.
\<close>

theorem clean_response_examples:
  "clean_response u (str_of ''I feel very happy today'') = str_of ''Positive'' \<and>
   clean_response u (str_of ''This is absolutely terrible'') = str_of ''Negative'' \<and>
   clean_response u (str_of ''It was rather average'') = str_of ''Neutral'' \<and>
   clean_response u (str_of ''Pos'') = str_of ''Pos'' \<and>
   clean_response u (str_of ''banana'') = str_of ''Banana''"
  by (simp add: clean_response_def text_defs)

theorem clean_response_Pos_not_Positive:
  "clean_response latin1_cases (str_of ''Pos'') \<noteq> str_of ''Positive''"
  by (simp add: clean_response_def text_defs)

text \<open>
  Claim C8. For every input, \<open>clean_response\<close> returns what it returns with the checks for
  the substrings positive, negative and neutral (lines 35 to 40) removed: the three words
  are members of the keyword lists tried before, so those checks never decide.
\<close>

theorem clean_response_second_phase_unreachable:
  "clean_response u raw = clean_response_simplified u raw"
  by (simp add: clean_response_def clean_response_simplified_def any_in_Cons Let_def)

section \<open>The analyze operation: shape of a run\<close>

lemma analyze_sentiment_invalid:
  assumes "length (strip text) < 3 \<or> 5000 < length (strip text)"
  shows "\<exists>d. analyze_sentiment u up text model = Inl (HTTPException 400 d)"
  using assms by (auto simp: analyze_sentiment_def Let_def)

lemma analyze_sentiment_valid:
  assumes "3 \<le> length (strip text)" and "length (strip text) \<le> 5000"
  shows "analyze_sentiment u up text model =
     (case check_ollama_service up of
        Inl e \<Rightarrow> Inl (Raised e)
      | Inr running \<Rightarrow>
          if \<not> running
            then Inl (HTTPException 503
                   (str_of ''Ollama service is not available. Please ensure Ollama is running.''))
          else
            (case get_available_models up of
               Inl e \<Rightarrow> Inl (Raised e)
             | Inr available_models \<Rightarrow>
                 (case try_generate u up (strip text) (select_model model available_models) of
                    Inl e \<Rightarrow> Inl (except_clauses up e)
                  | Inr result \<Rightarrow> Inr result)))"
proof -
  have "strip text \<noteq> []" using assms(1) by auto
  moreover from this have "text \<noteq> []" using strip_Nil by auto
  ultimately show ?thesis using assms
    by (simp add: analyze_sentiment_def Let_def)
qed

lemma except_clauses_status:
  "\<exists>s d. except_clauses up e = HTTPException s d \<and> s \<in> {500, 503, 504}"
  by (cases e rule: exn.exhaust; simp add: except_clauses_def split: lib_exn.splits)

lemma analyze_sentiment_valid_not_400:
  assumes "3 \<le> length (strip text)" and "length (strip text) \<le> 5000"
  shows "analyze_sentiment u up text model \<noteq> Inl (HTTPException 400 d)"
proof -
  have "except_clauses up e \<noteq> HTTPException 400 d" for e
    using except_clauses_status [of up e] by auto
  then show ?thesis
    by (auto simp: analyze_sentiment_valid [OF assms] split: sum.splits)
qed

lemma analyze_sentiment_Inr:
  assumes "analyze_sentiment u up text model = Inr res"
  shows "3 \<le> length (strip text) \<and> length (strip text) \<le> 5000 \<and>
         check_ollama_service up = Inr True \<and>
         (\<exists>ms. get_available_models up = Inr ms \<and>
               try_generate u up (strip text) (select_model model ms) = Inr res)"
  using assms
  by (auto simp: analyze_sentiment_def Let_def split: if_splits sum.splits)

lemma try_generate_Inr:
  assumes "try_generate u up text m = Inr res"
  shows "\<exists>r. post_generate up m (prompt_for text) = Response 200 (Json r) \<and>
             strip (get_response r) \<noteq> [] \<and>
             res = \<lparr> sentiment = clean_response u (strip (get_response r)),
                     confidence =
                       (if clean_response u (strip (get_response r))
                             \<in> set [str_of ''Positive'', str_of ''Negative'', str_of ''Neutral'']
                        then str_of ''high'' else str_of ''medium''),
                     model_used = m,
                     input_text = text,
                     input_length = length text,
                     raw_response = strip (get_response r),
                     timestamp = now_isoformat up,
                     status = str_of ''success'' \<rparr>"
  using assms
  by (auto simp: try_generate_def Let_def split: outcome.splits json_body.splits if_splits)

lemma analyze_sentiment_success:
  assumes "3 \<le> length (strip text)" and "length (strip text) \<le> 5000"
    and "check_ollama_service up = Inr True"
    and "get_available_models up = Inr ms"
    and "post_generate up (select_model model ms) (prompt_for (strip text)) = Response 200 (Json r)"
    and "strip (get_response r) \<noteq> []"
  shows "analyze_sentiment u up text model =
           Inr \<lparr> sentiment = clean_response u (strip (get_response r)),
                 confidence =
                   (if clean_response u (strip (get_response r))
                         \<in> set [str_of ''Positive'', str_of ''Negative'', str_of ''Neutral'']
                    then str_of ''high'' else str_of ''medium''),
                 model_used = select_model model ms,
                 input_text = strip text,
                 input_length = length (strip text),
                 raw_response = strip (get_response r),
                 timestamp = now_isoformat up,
                 status = str_of ''success'' \<rparr>"
  using assms(3-6)
  by (simp add: analyze_sentiment_valid [OF assms(1,2)] try_generate_def Let_def)

lemma analyze_sentiment_failure:
  assumes "3 \<le> length (strip text)" and "length (strip text) \<le> 5000"
    and "check_ollama_service up = Inr True"
    and "get_available_models up = Inr ms"
    and "try_generate u up (strip text) (select_model model ms) = Inl e"
  shows "analyze_sentiment u up text model = Inl (except_clauses up e)"
  using assms(3-5)
  by (simp add: analyze_sentiment_valid [OF assms(1,2)])

subsection \<open>Concrete runs\<close>

lemma check_backend_answering: "check_ollama_service (backend_answering names out) = Inr True"
  by (simp add: check_ollama_service_def backend_answering_def)

lemma models_backend_answering: "get_available_models (backend_answering names out) = Inr names"
  by (simp add: get_available_models_def backend_answering_def)

lemma post_backend_answering: "post_generate (backend_answering names out) m p = out"
  by (simp add: backend_answering_def)

lemma now_backend_answering:
  "now_isoformat (backend_answering names out) = str_of ''2025-08-12T10:00:00''"
  by (simp add: backend_answering_def)

lemma check_backend_down: "check_ollama_service backend_down = Inr False"
  by (simp add: check_ollama_service_def backend_down_def)

lemma strip_good_day: "strip (str_of ''good day'') = str_of ''good day''"
  by (simp add: text_defs)

lemma strip_Positive: "strip (str_of ''Positive'') = str_of ''Positive''"
  by (simp add: text_defs)

lemma clean_response_Positive: "clean_response u (str_of ''Positive'') = str_of ''Positive''"
  by (simp add: clean_response_def text_defs)

lemma run_good_day:
  "analyze_sentiment u (backend_answering names (Response 200 (Json (Some (str_of ''Positive'')))))
     (str_of ''good day'') model =
   Inr \<lparr> sentiment = str_of ''Positive'', confidence = str_of ''high'',
         model_used = select_model model names,
         input_text = str_of ''good day'', input_length = 8, raw_response = str_of ''Positive'',
         timestamp = str_of ''2025-08-12T10:00:00'', status = str_of ''success'' \<rparr>"
  by (subst analyze_sentiment_success [where ms = names and r = "Some (str_of ''Positive'')"])
     (simp_all add: strip_good_day check_backend_answering models_backend_answering
        post_backend_answering now_backend_answering get_response_def strip_Positive
        clean_response_Positive, simp_all add: str_of_def)

lemma strip_hi: "strip [160, 104, 105, 33, 160] = str_of ''hi!''"
  by (simp add: text_defs)

lemma strip_banana: "strip (str_of '' banana '') = str_of ''banana''"
  by (simp add: text_defs)

lemma clean_response_banana: "clean_response u (str_of ''banana'') = str_of ''Banana''"
  by (simp add: clean_response_def text_defs)

lemma run_banana:
  "analyze_sentiment u (backend_answering [] (Response 200 (Json (Some (str_of '' banana '')))))
     [160, 104, 105, 33, 160] None =
   Inr \<lparr> sentiment = str_of ''Banana'', confidence = str_of ''medium'',
         model_used = str_of ''mistral:7b-instruct'',
         input_text = str_of ''hi!'', input_length = 3, raw_response = str_of ''banana'',
         timestamp = str_of ''2025-08-12T10:00:00'', status = str_of ''success'' \<rparr>"
  by (subst analyze_sentiment_success [where ms = "[]" and r = "Some (str_of '' banana '')"])
     (simp_all add: strip_hi check_backend_answering models_backend_answering
        post_backend_answering now_backend_answering get_response_def strip_banana
        clean_response_banana select_model_def DEFAULT_MODEL_def, simp_all add: str_of_def)

lemma run_substituted:
  "analyze_sentiment latin1_cases
     (backend_answering [str_of ''llama3:latest'', str_of ''phi3'']
        (Response 200 (Json (Some (str_of ''Positive'')))))
     (str_of ''good day'') (Some (str_of ''gpt-4'')) =
   Inr \<lparr> sentiment = str_of ''Positive'', confidence = str_of ''high'',
         model_used = str_of ''llama3:latest'',
         input_text = str_of ''good day'', input_length = 8, raw_response = str_of ''Positive'',
         timestamp = str_of ''2025-08-12T10:00:00'', status = str_of ''success'' \<rparr>"
  unfolding run_good_day
  by (simp add: select_model_def DEFAULT_MODEL_def Let_def str_of_def)

section \<open>Validation and the liveness check\<close>

text \<open>
  Claim C3, as amended. When the liveness check fails, the analyze operation returns the
  503 error for every text whose stripped form has 3 to 5000 characters; a text outside
  these bounds is rejected with a 400 error before the backend is probed.
\<close>

theorem analyze_sentiment_backend_unavailable:
  assumes "check_ollama_service up = Inr False"
  shows "(3 \<le> length (strip text) \<and> length (strip text) \<le> 5000 \<longrightarrow>
           analyze_sentiment u up text model =
             Inl (HTTPException 503
                    (str_of ''Ollama service is not available. Please ensure Ollama is running.''))) \<and>
         (length (strip text) < 3 \<or> 5000 < length (strip text) \<longrightarrow>
           (\<exists>d. analyze_sentiment u up text model = Inl (HTTPException 400 d)))"
  using assms by (simp add: analyze_sentiment_valid analyze_sentiment_invalid)

theorem analyze_sentiment_backend_unavailable_witness:
  "check_ollama_service backend_down = Inr False \<and>
   length (strip (str_of ''I love it'')) = 9 \<and>
   analyze_sentiment latin1_cases backend_down (str_of ''I love it'') None =
     Inl (HTTPException 503
            (str_of ''Ollama service is not available. Please ensure Ollama is running.'')) \<and>
   length (strip [160, 160, 160]) = 0 \<and>
   (\<exists>d. analyze_sentiment latin1_cases backend_down [160, 160, 160] None
          = Inl (HTTPException 400 d))"
proof -
  have len: "length (strip (str_of ''I love it'')) = 9" by (simp add: text_defs)
  have nbsp: "length (strip [160, 160, 160]) = 0" by (simp add: text_defs)
  from analyze_sentiment_backend_unavailable
         [OF check_backend_down, of "str_of ''I love it''" latin1_cases None]
    analyze_sentiment_backend_unavailable
         [OF check_backend_down, of "[160, 160, 160]" latin1_cases None]
    len nbsp check_backend_down
  show ?thesis by simp
qed

text \<open>With the backend down, the empty text is answered with 400, not 503.\<close>

theorem analyze_sentiment_invalid_text_backend_down:
  "check_ollama_service backend_down = Inr False \<and>
   analyze_sentiment latin1_cases backend_down [] None =
     Inl (HTTPException 400 (str_of ''Text input is required''))"
  by (simp add: check_backend_down analyze_sentiment_def)

text \<open>
  Claim C4, as amended. The bounds are checked on the stripped text: every text whose
  stripped form has fewer than 3 characters, so every text of 0, 1 or 2 characters, and
  every text whose stripped form has more than 5000 characters, is answered with a 400
  error.
\<close>

theorem analyze_sentiment_length_bounds:
  "(length text \<le> 2 \<longrightarrow>
      (\<exists>d. analyze_sentiment u up text model = Inl (HTTPException 400 d))) \<and>
   (length (strip text) < 3 \<or> 5000 < length (strip text) \<longrightarrow>
      (\<exists>d. analyze_sentiment u up text model = Inl (HTTPException 400 d)))"
proof -
  have "length text \<le> 2 \<Longrightarrow> length (strip text) < 3"
    using length_strip_le [of "text"] by simp
  then show ?thesis using analyze_sentiment_invalid by blast
qed

theorem analyze_sentiment_length_bounds_witness:
  "length (str_of ''hi'') \<le> 2 \<and>
   (\<exists>d. analyze_sentiment latin1_cases backend_down (str_of ''hi'') None
          = Inl (HTTPException 400 d)) \<and>
   5000 < length (strip (replicate 5001 97)) \<and>
   (\<exists>d. analyze_sentiment latin1_cases backend_down (replicate 5001 97) None
          = Inl (HTTPException 400 d)) \<and>
   length (strip [160, 104, 105, 8195]) < 3 \<and>
   (\<exists>d. analyze_sentiment latin1_cases backend_down [160, 104, 105, 8195] None
          = Inl (HTTPException 400 d))"
proof -
  have short: "length (str_of ''hi'') \<le> 2" by (simp add: str_of_def)
  have "strip (replicate 5001 97) = replicate 5001 97"
    by (simp add: strip_def is_space_def)
  then have long: "5000 < length (strip (replicate 5001 97))"
    by simp
  have padded: "length (strip [160, 104, 105, 8195]) < 3"
    by (simp add: text_defs)
  from analyze_sentiment_length_bounds [of "str_of ''hi''" latin1_cases backend_down None]
    analyze_sentiment_length_bounds [of "replicate 5001 97" latin1_cases backend_down None]
    analyze_sentiment_length_bounds [of "[160, 104, 105, 8195]" latin1_cases backend_down None]
    short long padded
  show ?thesis by simp
qed

text \<open>
  A text of 5001 characters, three letters followed by blanks, passes validation and is
  analysed.
\<close>

theorem analyze_sentiment_padded_text_accepted:
  "length padded_text = 5001 \<and>
   analyze_sentiment latin1_cases
       (backend_answering [] (Response 200 (Json (Some (str_of ''Positive'')))))
       padded_text None =
     Inr \<lparr> sentiment = str_of ''Positive'', confidence = str_of ''high'',
           model_used = str_of ''mistral:7b-instruct'',
           input_text = str_of ''abc'', input_length = 3, raw_response = str_of ''Positive'',
           timestamp = str_of ''2025-08-12T10:00:00'', status = str_of ''success'' \<rparr>"
proof -
  have "analyze_sentiment latin1_cases
            (backend_answering [] (Response 200 (Json (Some (str_of ''Positive'')))))
            padded_text None =
     Inr \<lparr> sentiment = str_of ''Positive'', confidence = str_of ''high'',
           model_used = str_of ''mistral:7b-instruct'',
           input_text = str_of ''abc'', input_length = 3, raw_response = str_of ''Positive'',
           timestamp = str_of ''2025-08-12T10:00:00'', status = str_of ''success'' \<rparr>"
    by (subst analyze_sentiment_success [where ms = "[]" and r = "Some (str_of ''Positive'')"])
       (simp_all add: strip_padded_text check_backend_answering models_backend_answering
          post_backend_answering now_backend_answering get_response_def strip_Positive
          clean_response_Positive select_model_def DEFAULT_MODEL_def, simp_all add: str_of_def)
  then show ?thesis by (simp add: length_padded_text)
qed

section \<open>Model selection\<close>

text \<open>
  Claim C5, as amended. In a successful run, a supplied model name that is not in the
  backend's non-empty model list is replaced by the first listed model, which is the one
  sent to the backend and reported in \<open>model_used\<close>. When no name is supplied the default
  \<open>mistral:7b-instruct\<close> is the candidate: it is used when the list is empty or contains
  it, and replaced by the first listed model otherwise.
\<close>

theorem analyze_sentiment_model_selection:
  assumes "analyze_sentiment u up text model = Inr res"
    and "get_available_models up = Inr available"
  shows "(model = Some m \<and> m \<noteq> [] \<and> available = first # others \<and> m \<notin> set available \<longrightarrow>
            model_used res = first) \<and>
         (model = None \<or> model = Some [] \<longrightarrow>
            model_used res =
              (if available = [] \<or> DEFAULT_MODEL \<in> set available
               then DEFAULT_MODEL else hd available)) \<and>
         (\<exists>r. post_generate up (model_used res) (prompt_for (strip text))
                = Response 200 (Json r))"
proof -
  from analyze_sentiment_Inr [OF assms(1)] assms(2)
  have run: "try_generate u up (strip text) (select_model model available) = Inr res"
    by auto
  from try_generate_Inr [OF run] obtain r where
    post: "post_generate up (select_model model available) (prompt_for (strip text))
             = Response 200 (Json r)"
    and used: "model_used res = select_model model available"
    by auto
  from post used
  have "\<exists>r. post_generate up (model_used res) (prompt_for (strip text)) = Response 200 (Json r)"
    by auto
  then show ?thesis using used
    by (auto simp: select_model_def split: list.splits)
qed

theorem analyze_sentiment_model_selection_witness:
  "analyze_sentiment latin1_cases
     (backend_answering [str_of ''llama3:latest'', str_of ''phi3'']
        (Response 200 (Json (Some (str_of ''Positive'')))))
     (str_of ''good day'') (Some (str_of ''gpt-4'')) =
   Inr \<lparr> sentiment = str_of ''Positive'', confidence = str_of ''high'',
         model_used = str_of ''llama3:latest'',
         input_text = str_of ''good day'', input_length = 8, raw_response = str_of ''Positive'',
         timestamp = str_of ''2025-08-12T10:00:00'', status = str_of ''success'' \<rparr> \<and>
   get_available_models
     (backend_answering [str_of ''llama3:latest'', str_of ''phi3'']
        (Response 200 (Json (Some (str_of ''Positive'')))))
     = Inr [str_of ''llama3:latest'', str_of ''phi3''] \<and>
   str_of ''gpt-4'' \<noteq> [] \<and>
   str_of ''gpt-4'' \<notin> set [str_of ''llama3:latest'', str_of ''phi3''] \<and>
   model_used \<lparr> sentiment = str_of ''Positive'', confidence = str_of ''high'',
         model_used = str_of ''llama3:latest'',
         input_text = str_of ''good day'', input_length = 8, raw_response = str_of ''Positive'',
         timestamp = str_of ''2025-08-12T10:00:00'', status = str_of ''success'' \<rparr>
     = str_of ''llama3:latest''"
proof -
  have new: "str_of ''gpt-4'' \<noteq> []"
    "str_of ''gpt-4'' \<notin> set [str_of ''llama3:latest'', str_of ''phi3'']"
    by (simp_all add: str_of_def)
  from analyze_sentiment_model_selection
         [OF run_substituted models_backend_answering,
          of "str_of ''gpt-4''" "str_of ''llama3:latest''" "[str_of ''phi3'']"]
    run_substituted models_backend_answering new
  show ?thesis by simp
qed

text \<open>
  With no model name supplied and a backend that lists only \<open>llama3:latest\<close>, the model
  used is \<open>llama3:latest\<close>, not the default.
\<close>

theorem analyze_sentiment_default_substituted:
  "analyze_sentiment latin1_cases
     (backend_answering [str_of ''llama3:latest''] (Response 200 (Json (Some (str_of ''Positive'')))))
     (str_of ''good day'') None =
   Inr \<lparr> sentiment = str_of ''Positive'', confidence = str_of ''high'',
         model_used = str_of ''llama3:latest'',
         input_text = str_of ''good day'', input_length = 8, raw_response = str_of ''Positive'',
         timestamp = str_of ''2025-08-12T10:00:00'', status = str_of ''success'' \<rparr> \<and>
   str_of ''llama3:latest'' \<noteq> DEFAULT_MODEL"
  unfolding run_good_day
  by (simp add: select_model_def DEFAULT_MODEL_def Let_def str_of_def)

section \<open>Failure mapping\<close>




section \<open>The result of a successful run\<close>

text \<open>
  Claim C7. In every successful response the confidence is \<open>high\<close> exactly when the
  sentiment is one of Positive, Negative, Neutral, and \<open>medium\<close> otherwise.
\<close>

theorem analyze_sentiment_confidence:
  assumes "analyze_sentiment u up text model = Inr res"
  shows "(confidence res = str_of ''high'' \<longleftrightarrow>
            sentiment res \<in> {str_of ''Positive'', str_of ''Negative'', str_of ''Neutral''}) \<and>
         (sentiment res \<notin> {str_of ''Positive'', str_of ''Negative'', str_of ''Neutral''} \<longrightarrow>
            confidence res = str_of ''medium'')"
proof -
  have differ: "str_of ''medium'' \<noteq> str_of ''high''"
    by (simp add: str_of_def)
  from analyze_sentiment_Inr [OF assms] obtain ms where
    "try_generate u up (strip text) (select_model model ms) = Inr res" by auto
  from try_generate_Inr [OF this] differ show ?thesis by (auto split: if_splits)
qed

theorem analyze_sentiment_confidence_witness:
  "analyze_sentiment latin1_cases
     (backend_answering [] (Response 200 (Json (Some (str_of '' banana '')))))
     [160, 104, 105, 33, 160] None =
   Inr \<lparr> sentiment = str_of ''Banana'', confidence = str_of ''medium'',
         model_used = str_of ''mistral:7b-instruct'',
         input_text = str_of ''hi!'', input_length = 3, raw_response = str_of ''banana'',
         timestamp = str_of ''2025-08-12T10:00:00'', status = str_of ''success'' \<rparr> \<and>
   str_of ''Banana'' \<notin> {str_of ''Positive'', str_of ''Negative'', str_of ''Neutral''} \<and>
   str_of ''medium'' \<noteq> str_of ''high''"
proof -
  have other: "str_of ''Banana'' \<notin> {str_of ''Positive'', str_of ''Negative'', str_of ''Neutral''}"
    by (simp add: str_of_def)
  from analyze_sentiment_confidence [OF run_banana] other
  have "str_of ''medium'' \<noteq> str_of ''high''" by simp
  with run_banana other show ?thesis by simp
qed

text \<open>
  Claim C10. In every successful response \<open>input_text\<close> is the stripped form of the
  submitted text and \<open>input_length\<close> its length. The bounds are checked against the
  stripped text: the request is rejected with a 400 error exactly when the stripped text
  has fewer than 3 or more than 5000 characters, so a successful response has a stripped
  text of 3 to 5000 characters.
\<close>

theorem analyze_sentiment_echoes_stripped_text:
  "(analyze_sentiment u up text model = Inr res \<longrightarrow>
      input_text res = strip text \<and> input_length res = length (strip text) \<and>
      3 \<le> length (strip text) \<and> length (strip text) \<le> 5000) \<and>
   ((\<exists>d. analyze_sentiment u up text model = Inl (HTTPException 400 d)) \<longleftrightarrow>
      length (strip text) < 3 \<or> 5000 < length (strip text))"
proof (intro conjI impI)
  assume a: "analyze_sentiment u up text model = Inr res"
  from analyze_sentiment_Inr [OF a] obtain ms where
    b: "3 \<le> length (strip text)" "length (strip text) \<le> 5000" and
    "try_generate u up (strip text) (select_model model ms) = Inr res" by auto
  from try_generate_Inr [OF this(3)] b
  show "input_text res = strip text" and "input_length res = length (strip text)"
    and "3 \<le> length (strip text)" and "length (strip text) \<le> 5000"
    by auto
next
  show "(\<exists>d. analyze_sentiment u up text model = Inl (HTTPException 400 d)) \<longleftrightarrow>
          length (strip text) < 3 \<or> 5000 < length (strip text)"
  proof
    assume "\<exists>d. analyze_sentiment u up text model = Inl (HTTPException 400 d)"
    then show "length (strip text) < 3 \<or> 5000 < length (strip text)"
      using analyze_sentiment_valid_not_400 [of "text" u up model]
      by (meson not_le_imp_less)
  next
    assume "length (strip text) < 3 \<or> 5000 < length (strip text)"
    then show "\<exists>d. analyze_sentiment u up text model = Inl (HTTPException 400 d)"
      by (rule analyze_sentiment_invalid)
  qed
qed

theorem analyze_sentiment_echoes_stripped_text_witness:
  "analyze_sentiment latin1_cases
     (backend_answering [] (Response 200 (Json (Some (str_of '' banana '')))))
     [160, 104, 105, 33, 160] None =
   Inr \<lparr> sentiment = str_of ''Banana'', confidence = str_of ''medium'',
         model_used = str_of ''mistral:7b-instruct'',
         input_text = str_of ''hi!'', input_length = 3, raw_response = str_of ''banana'',
         timestamp = str_of ''2025-08-12T10:00:00'', status = str_of ''success'' \<rparr> \<and>
   strip [160, 104, 105, 33, 160] = str_of ''hi!'' \<and>
   length (strip [160, 104, 105, 33, 160]) = 3 \<and>
   length [160, 104, 105, 33, 160] = (5::nat) \<and>
   length padded_text = 5001 \<and> length (strip padded_text) = 3 \<and>
   \<not> (\<exists>d. analyze_sentiment latin1_cases backend_down padded_text None
            = Inl (HTTPException 400 d))"
proof -
  from analyze_sentiment_echoes_stripped_text
         [where u = latin1_cases
            and up = "backend_answering [] (Response 200 (Json (Some (str_of '' banana ''))))"
            and ?text = "[160, 104, 105, 33, 160]" and model = None
            and res = "\<lparr> sentiment = str_of ''Banana'', confidence = str_of ''medium'',
                model_used = str_of ''mistral:7b-instruct'', input_text = str_of ''hi!'',
                input_length = 3, raw_response = str_of ''banana'',
                timestamp = str_of ''2025-08-12T10:00:00'', status = str_of ''success'' \<rparr>"]
    run_banana
  have echo: "strip [160, 104, 105, 33, 160] = str_of ''hi!''"
    and len: "length (strip [160, 104, 105, 33, 160]) = 3"
    by simp_all
  have plen: "length (strip padded_text) = 3"
    by (simp add: strip_padded_text str_of_def)
  from analyze_sentiment_echoes_stripped_text [of latin1_cases backend_down padded_text None]
    plen
  have accepted: "\<not> (\<exists>d. analyze_sentiment latin1_cases backend_down padded_text None
                         = Inl (HTTPException 400 d))"
    by simp
  from run_banana echo len plen accepted length_padded_text show ?thesis by simp
qed

text \<open>
  Claim C9. On a reply that is empty or all white space \<open>clean_response\<close> returns Neutral.
  Inside the analyze operation that branch is never taken: a reply whose stripped form is
  empty is answered with a 500 error, and in a successful run the label is computed from
  a raw response whose trimmed lower-cased form is not empty.
\<close>

theorem clean_response_blank_reply:
  "((\<forall>c \<in> set raw. is_space c) \<longrightarrow> clean_response u raw = str_of ''Neutral'') \<and>
   (analyze_sentiment u up text model = Inr res \<longrightarrow>
      sentiment res = clean_response u (raw_response res) \<and>
      lower u (strip (raw_response res)) \<noteq> []) \<and>
   (3 \<le> length (strip text) \<and> length (strip text) \<le> 5000 \<and>
    check_ollama_service up = Inr True \<and> get_available_models up = Inr ms \<and>
    post_generate up (select_model model ms) (prompt_for (strip text)) = Response 200 (Json r) \<and>
    (\<forall>c \<in> set (get_response r). is_space c) \<longrightarrow>
      (\<exists>d. analyze_sentiment u up text model = Inl (HTTPException 500 d)))"
proof (intro conjI impI)
  assume "\<forall>c \<in> set raw. is_space c"
  then have "lower u (strip raw) = []"
    by (simp add: strip_all_space lower_def)
  then show "clean_response u raw = str_of ''Neutral''"
    by (simp add: clean_response_def any_in_def str_of_def)
next
  assume a: "analyze_sentiment u up text model = Inr res"
  from analyze_sentiment_Inr [OF a] obtain ms where
    "try_generate u up (strip text) (select_model model ms) = Inr res" by auto
  from try_generate_Inr [OF this] obtain r where
    "strip (get_response r) \<noteq> []" and "raw_response res = strip (get_response r)"
    and "sentiment res = clean_response u (strip (get_response r))"
    by auto
  then show "sentiment res = clean_response u (raw_response res)"
    and "lower u (strip (raw_response res)) \<noteq> []"
    by (simp_all add: strip_strip lower_Nil_iff)
next
  assume h: "3 \<le> length (strip text) \<and> length (strip text) \<le> 5000 \<and>
    check_ollama_service up = Inr True \<and> get_available_models up = Inr ms \<and>
    post_generate up (select_model model ms) (prompt_for (strip text)) = Response 200 (Json r) \<and>
    (\<forall>c \<in> set (get_response r). is_space c)"
  then have "strip (get_response r) = []"
    by (simp add: strip_all_space)
  with h have "try_generate u up (strip text) (select_model model ms)
               = Inl (HTTPException 500 (str_of ''Empty response from model''))"
    by (simp add: try_generate_def)
  with h have "analyze_sentiment u up text model
                 = Inl (except_clauses up (HTTPException 500 (str_of ''Empty response from model'')))"
    by (simp add: analyze_sentiment_failure)
  then show "\<exists>d. analyze_sentiment u up text model = Inl (HTTPException 500 d)"
    by (simp add: except_clauses_def)
qed

theorem clean_response_blank_reply_witness:
  "is_space 32 \<and> is_space 9 \<and> is_space 160 \<and> is_space 133 \<and>
   clean_response latin1_cases [32, 9, 160, 133] = str_of ''Neutral'' \<and>
   lower latin1_cases (strip (str_of ''banana'')) \<noteq> [] \<and>
   (\<exists>d. analyze_sentiment latin1_cases
          (backend_answering [] (Response 200 (Json (Some [160, 10]))))
          (str_of ''good day'') None = Inl (HTTPException 500 d))"
proof -
  have sp: "\<forall>c \<in> set [32, 9, 160, 133]. is_space c"
    by (simp add: is_space_def)
  have len: "3 \<le> length (strip (str_of ''good day''))"
    "length (strip (str_of ''good day'')) \<le> 5000"
    by (simp_all add: strip_good_day) (simp_all add: str_of_def)
  have blank: "\<forall>c \<in> set (get_response (Some [160, 10])). is_space c"
    by (simp add: get_response_def is_space_def)
  note backend = check_backend_answering models_backend_answering post_backend_answering
  note br = clean_response_blank_reply [where u = latin1_cases and model = None]
  from br [where raw = "[32, 9, 160, 133]"
             and up = "backend_answering [] (Response 200 (Json (Some (str_of '' banana ''))))"
             and ?text = "[160, 104, 105, 33, 160]"
             and res = "\<lparr> sentiment = str_of ''Banana'', confidence = str_of ''medium'',
                model_used = str_of ''mistral:7b-instruct'', input_text = str_of ''hi!'',
                input_length = 3, raw_response = str_of ''banana'',
                timestamp = str_of ''2025-08-12T10:00:00'', status = str_of ''success'' \<rparr>"]
    sp run_banana
  have first: "clean_response latin1_cases [32, 9, 160, 133] = str_of ''Neutral''"
    and second: "lower latin1_cases (strip (str_of ''banana'')) \<noteq> []"
    by simp_all
  from br [where up = "backend_answering [] (Response 200 (Json (Some [160, 10])))"
             and ?text = "str_of ''good day''" and ms = "[]" and r = "Some [160, 10]"]
    len blank
  have third: "\<exists>d. analyze_sentiment latin1_cases
                    (backend_answering [] (Response 200 (Json (Some [160, 10]))))
                    (str_of ''good day'') None = Inl (HTTPException 500 d)"
    by (simp add: backend)
  have "is_space 32 \<and> is_space 9 \<and> is_space 160 \<and> is_space 133"
    using sp by simp
  with first second third show ?thesis by simp
qed

end
